theory Spec2Isabelle
  imports Complex_Main "HOL-Library.Word" "HOL-Library.Multiset"
begin

section \<open>JavaScript strings\<close>

text \<open>
  Text typed by a user or carried in a request body is a JavaScript string: a sequence of
  UTF-16 code units, whose \<^verbatim>\<open>length\<close> counts code units. The fixed messages of the
  source are ASCII literals and are kept as HOL strings.
\<close>

type_synonym ustring = "16 word list"

definition ascii :: "string \<Rightarrow> ustring" where
  "ascii s = map (\<lambda>c. of_nat (of_char c)) s"

text \<open>
  \<^verbatim>\<open>String.prototype.trim\<close> removes the code units of WhiteSpace and LineTerminator
  (ECMA-262) from both ends: TAB, LF, VT, FF, CR, SP, NBSP, U+1680, U+2000..U+200A, LS, PS,
  U+202F, U+205F, U+3000 and U+FEFF.
\<close>

definition isWhiteSpace :: "16 word \<Rightarrow> bool" where
  "isWhiteSpace c \<longleftrightarrow>
     c = 0x0009 \<or> c = 0x000A \<or> c = 0x000B \<or> c = 0x000C \<or> c = 0x000D \<or> c = 0x0020 \<or>
     c = 0x00A0 \<or> c = 0x1680 \<or> (0x2000 \<le> c \<and> c \<le> 0x200A) \<or> c = 0x2028 \<or> c = 0x2029 \<or>
     c = 0x202F \<or> c = 0x205F \<or> c = 0x3000 \<or> c = 0xFEFF"

definition trim :: "ustring \<Rightarrow> ustring" where
  "trim s = rev (dropWhile isWhiteSpace (rev (dropWhile isWhiteSpace s)))"

text \<open>A title is blank when it is empty or consists only of whitespace.\<close>

definition blank :: "ustring \<Rightarrow> bool" where
  "blank s = list_all isWhiteSpace s"

section \<open>The task record\<close>

datatype priority = Low | Medium | High

text \<open>
  A stored task, as the schema of \<^verbatim>\<open>taskSchema\<close> with \<^verbatim>\<open>timestamps: true\<close> shapes
  it. \<^verbatim>\<open>_id\<close> is written \<open>task_id\<close>; the two timestamps are milliseconds since the epoch.
\<close>

type_synonym oid = string

record task =
  task_id :: oid
  title :: ustring
  description :: ustring
  completed :: bool
  priority :: priority
  createdAt :: int
  updatedAt :: int

section \<open>The task form (taskForm.jsx)\<close>

record form_data =
  fd_title :: ustring
  fd_description :: ustring
  fd_priority :: ustring

record form_errors =
  e_title :: "string option"
  e_description :: "string option"
  e_submit :: "string option"

record form_state =
  formData :: form_data
  isSubmitting :: bool
  errors :: form_errors

definition emptyForm :: form_data where
  "emptyForm = \<lparr>fd_title = [], fd_description = [], fd_priority = ascii ''medium''\<rparr>"

definition noErrors :: form_errors where
  "noErrors = \<lparr>e_title = None, e_description = None, e_submit = None\<rparr>"

text \<open>
  \<^verbatim>\<open>validateForm\<close>: the new error object and whether it has no key.
\<close>

definition validateForm :: "form_data \<Rightarrow> form_errors \<times> bool" where
  "validateForm fd =
     (let t = trim (fd_title fd);
          et = (if t = [] then Some ''Task title is required''
                else if length t < 3 then Some ''Title must be at least 3 characters long''
                else if length t > 100 then Some ''Title must be less than 100 characters''
                else None);
          ed = (if length (fd_description fd) > 250
                then Some ''Description must be less than 250 characters'' else None)
      in (\<lparr>e_title = et, e_description = ed, e_submit = None\<rparr>, et = None \<and> ed = None))"

text \<open>
  \<^verbatim>\<open>handleSubmit\<close>. The parent's \<^verbatim>\<open>onSubmit\<close> is a state transformer on the parent's
  state that either resolves (\<open>Inr ()\<close>) or rejects with an error message (\<open>Inl msg\<close>); the
  result is the form state and the parent state once the handler has finished. When
  validation fails the handler returns before touching anything but the error object.
\<close>

definition handleSubmit ::
  "(form_data \<Rightarrow> 'a \<Rightarrow> (string + unit) \<times> 'a) \<Rightarrow> bool \<Rightarrow> form_state \<Rightarrow> 'a \<Rightarrow> form_state \<times> 'a" where
  "handleSubmit onSubmit isEditing fs app =
     (case validateForm (formData fs) of
        (newErrors, ok) \<Rightarrow>
          if \<not> ok then (fs\<lparr>errors := newErrors\<rparr>, app)
          else
            let dataToSubmit = \<lparr>fd_title = trim (fd_title (formData fs)),
                                fd_description = trim (fd_description (formData fs)),
                                fd_priority = fd_priority (formData fs)\<rparr>
            in case onSubmit dataToSubmit app of
                 (Inr u, app') \<Rightarrow>
                   (fs\<lparr>formData := (if \<not> isEditing then emptyForm else formData fs),
                       errors := noErrors, isSubmitting := False\<rparr>, app')
               | (Inl msg, app') \<Rightarrow>
                   (fs\<lparr>errors := \<lparr>e_title = None, e_description = None,
                                   e_submit = Some (if msg = [] then
                                     ''Failed to save task. Please try again.'' else msg)\<rparr>,
                       isSubmitting := False\<rparr>, app'))"

section \<open>The persistence layer (Mongoose model of \<^verbatim>\<open>taskSchema\<close>)\<close>

text \<open>
  The collection is the list of stored tasks in storage order. The operations below are
  the ones the route handlers call; they interpret the schema options of the source
  (\<^verbatim>\<open>required\<close>, \<^verbatim>\<open>trim\<close>, \<^verbatim>\<open>default\<close>, \<^verbatim>\<open>enum\<close>, \<^verbatim>\<open>timestamps\<close>) the way
  the object mapper does: setters run first, then defaults, then validators, and nothing is
  written when validation fails. A request body carries each creatable field or omits it;
  values of a foreign JSON type, and an unreachable database, are outside this model.
\<close>

record body =
  b_title :: "ustring option"
  b_description :: "ustring option"
  b_completed :: "bool option"
  b_priority :: "ustring option"

text \<open>A validation error names the failing paths; a cast error carries the rejected key.\<close>

datatype db_error = ValidationError "string list" | CastError string

text \<open>\<^verbatim>\<open>enum: ['low', 'medium', 'high']\<close>\<close>

definition enum_priority :: "ustring \<Rightarrow> priority option" where
  "enum_priority s =
     (if s = ascii ''low'' then Some Low
      else if s = ascii ''medium'' then Some Medium
      else if s = ascii ''high'' then Some High
      else None)"

text \<open>\<^verbatim>\<open>title: { type: String, required: true, trim: true }\<close>: the trimmed title, if one
  is given and it is not empty after trimming.\<close>

definition schema_title :: "ustring option \<Rightarrow> ustring option" where
  "schema_title v =
     (case v of None \<Rightarrow> None | Some s \<Rightarrow> if trim s = [] then None else Some (trim s))"

text \<open>\<^verbatim>\<open>description: { type: String, trim: true, default: 'default value' }\<close>\<close>

definition schema_description :: "ustring option \<Rightarrow> ustring" where
  "schema_description v = (case v of None \<Rightarrow> ascii ''default value'' | Some s \<Rightarrow> trim s)"

text \<open>\<^verbatim>\<open>completed: { type: Boolean, default: false }\<close>\<close>

definition schema_completed :: "bool option \<Rightarrow> bool" where
  "schema_completed v = (case v of None \<Rightarrow> False | Some c \<Rightarrow> c)"

text \<open>\<^verbatim>\<open>priority: { type: String, enum: [...], default: 'medium' }\<close>\<close>

definition schema_priority :: "ustring option \<Rightarrow> priority option" where
  "schema_priority v = (case v of None \<Rightarrow> Some Medium | Some p \<Rightarrow> enum_priority p)"

text \<open>
  \<^verbatim>\<open>Task.create(req.body)\<close>: \<open>new_id\<close> is the key the driver generates and \<open>now\<close> the
  clock reading used for both timestamps.
\<close>

definition Task_create ::
  "oid \<Rightarrow> int \<Rightarrow> body \<Rightarrow> task list \<Rightarrow> (db_error + task) \<times> task list" where
  "Task_create new_id now b coll =
     (case (schema_title (b_title b), schema_priority (b_priority b)) of
        (Some t, Some p) \<Rightarrow>
          (let doc = \<lparr>task_id = new_id, title = t,
                      description = schema_description (b_description b),
                      completed = schema_completed (b_completed b),
                      priority = p, createdAt = now, updatedAt = now\<rparr>
           in (Inr doc, coll @ [doc]))
      | (t, p) \<Rightarrow>
          (Inl (ValidationError ((if t = None then [''title''] else []) @
                                 (if p = None then [''priority''] else []))), coll))"

text \<open>
  \<^verbatim>\<open>Task.find({}).sort({ createdAt: -1 })\<close>: every document, newest first. The database
  leaves the order of equal keys open; here they stay in storage order.
\<close>

definition Task_find_sorted :: "task list \<Rightarrow> db_error + task list" where
  "Task_find_sorted coll = Inr (sort_key (\<lambda>t. - createdAt t) coll)"

text \<open>
  The three operations by key first cast \<^verbatim>\<open>req.params.id\<close> to the key type. Which
  strings the driver accepts depends on its version, so the cast is a parameter:
  \<open>castId s = None\<close> means that \<open>s\<close> is not a well-formed key.
\<close>

definition Task_findById ::
  "(string \<Rightarrow> oid option) \<Rightarrow> string \<Rightarrow> task list \<Rightarrow> db_error + task option" where
  "Task_findById castId rid coll =
     (case castId rid of
        None \<Rightarrow> Inl (CastError rid)
      | Some k \<Rightarrow> Inr (find (\<lambda>t. task_id t = k) coll))"

definition Task_findByIdAndDelete ::
  "(string \<Rightarrow> oid option) \<Rightarrow> string \<Rightarrow> task list \<Rightarrow> (db_error + task option) \<times> task list" where
  "Task_findByIdAndDelete castId rid coll =
     (case castId rid of
        None \<Rightarrow> (Inl (CastError rid), coll)
      | Some k \<Rightarrow>
          (case find (\<lambda>t. task_id t = k) coll of
             None \<Rightarrow> (Inr None, coll)
           | Some t \<Rightarrow> (Inr (Some t), remove1 t coll)))"

text \<open>
  \<^verbatim>\<open>Task.findByIdAndUpdate(id, req.body, { new: true, runValidators: true })\<close>. The
  update validators check the paths the body sets, before the collection is consulted; a
  body that passes is merged into the first document with the key, whose \<^verbatim>\<open>updatedAt\<close>
  is set, and the document after the update is returned.
\<close>

definition update_errors :: "body \<Rightarrow> string list" where
  "update_errors b =
     (case b_title b of None \<Rightarrow> [] | Some s \<Rightarrow> if trim s = [] then [''title''] else []) @
     (case b_priority b of None \<Rightarrow> []
      | Some p \<Rightarrow> if enum_priority p = None then [''priority''] else [])"

definition apply_update :: "int \<Rightarrow> body \<Rightarrow> task \<Rightarrow> task" where
  "apply_update now b t =
     t\<lparr>title := (case b_title b of None \<Rightarrow> title t | Some s \<Rightarrow> trim s),
       description := (case b_description b of None \<Rightarrow> description t | Some s \<Rightarrow> trim s),
       completed := (case b_completed b of None \<Rightarrow> completed t | Some c \<Rightarrow> c),
       priority := (case b_priority b of None \<Rightarrow> priority t
                    | Some p \<Rightarrow> (case enum_priority p of None \<Rightarrow> priority t | Some q \<Rightarrow> q)),
       updatedAt := now\<rparr>"

fun update_first :: "('a \<Rightarrow> bool) \<Rightarrow> ('a \<Rightarrow> 'a) \<Rightarrow> 'a list \<Rightarrow> 'a list" where
  "update_first P f [] = []"
| "update_first P f (x # xs) = (if P x then f x # xs else x # update_first P f xs)"

definition Task_findByIdAndUpdate ::
  "(string \<Rightarrow> oid option) \<Rightarrow> int \<Rightarrow> string \<Rightarrow> body \<Rightarrow> task list \<Rightarrow>
     (db_error + task option) \<times> task list" where
  "Task_findByIdAndUpdate castId now rid b coll =
     (case castId rid of
        None \<Rightarrow> (Inl (CastError rid), coll)
      | Some k \<Rightarrow>
          if update_errors b \<noteq> [] then (Inl (ValidationError (update_errors b)), coll)
          else
            (case find (\<lambda>t. task_id t = k) coll of
               None \<Rightarrow> (Inr None, coll)
             | Some t \<Rightarrow>
                 (Inr (Some (apply_update now b t)),
                  update_first (\<lambda>t. task_id t = k) (apply_update now b) coll)))"

section \<open>The route handlers\<close>

datatype payload = One task | Many "task list"

text \<open>The response envelope; \<open>error\<close> stands for the \<^verbatim>\<open>error.message\<close> detail.\<close>

record envelope =
  success :: bool
  message :: "string option"
  count :: "nat option"
  data :: "payload option"
  error :: "db_error option"

record response =
  status :: nat
  json :: envelope

definition ok_body :: "string option \<Rightarrow> nat option \<Rightarrow> payload \<Rightarrow> envelope" where
  "ok_body m c d = \<lparr>success = True, message = m, count = c, data = Some d, error = None\<rparr>"

definition fail_body :: "string \<Rightarrow> db_error option \<Rightarrow> envelope" where
  "fail_body m e = \<lparr>success = False, message = Some m, count = None, data = None, error = e\<rparr>"

text \<open>\<^verbatim>\<open>router.get('/')\<close>\<close>

definition get_tasks :: "task list \<Rightarrow> response" where
  "get_tasks coll =
     (case Task_find_sorted coll of
        Inr tasks \<Rightarrow> \<lparr>status = 200, json = ok_body None (Some (length tasks)) (Many tasks)\<rparr>
      | Inl e \<Rightarrow> \<lparr>status = 500, json = fail_body ''Server Error'' (Some e)\<rparr>)"

text \<open>\<^verbatim>\<open>router.get('/:id')\<close>\<close>

definition get_task :: "(string \<Rightarrow> oid option) \<Rightarrow> string \<Rightarrow> task list \<Rightarrow> response" where
  "get_task castId rid coll =
     (case Task_findById castId rid coll of
        Inr None \<Rightarrow> \<lparr>status = 404, json = fail_body ''Task not found'' None\<rparr>
      | Inr (Some t) \<Rightarrow> \<lparr>status = 200, json = ok_body None None (One t)\<rparr>
      | Inl e \<Rightarrow> \<lparr>status = 400, json = fail_body ''Invalid task ID'' (Some e)\<rparr>)"

text \<open>\<^verbatim>\<open>router.post('/')\<close>\<close>

definition post_task :: "oid \<Rightarrow> int \<Rightarrow> body \<Rightarrow> task list \<Rightarrow> response \<times> task list" where
  "post_task new_id now b coll =
     (case Task_create new_id now b coll of
        (Inr t, coll') \<Rightarrow>
          (\<lparr>status = 201, json = ok_body (Some ''Task created successfully'') None (One t)\<rparr>, coll')
      | (Inl e, coll') \<Rightarrow>
          (\<lparr>status = 400, json = fail_body ''Error creating task'' (Some e)\<rparr>, coll'))"

text \<open>\<^verbatim>\<open>router.put('/:id')\<close>\<close>

definition put_task ::
  "(string \<Rightarrow> oid option) \<Rightarrow> int \<Rightarrow> string \<Rightarrow> body \<Rightarrow> task list \<Rightarrow> response \<times> task list" where
  "put_task castId now rid b coll =
     (case Task_findByIdAndUpdate castId now rid b coll of
        (Inr None, coll') \<Rightarrow> (\<lparr>status = 404, json = fail_body ''Task not found'' None\<rparr>, coll')
      | (Inr (Some t), coll') \<Rightarrow>
          (\<lparr>status = 200, json = ok_body (Some ''Task updated successfully'') None (One t)\<rparr>, coll')
      | (Inl e, coll') \<Rightarrow>
          (\<lparr>status = 400, json = fail_body ''Error updating task'' (Some e)\<rparr>, coll'))"

text \<open>\<^verbatim>\<open>router.delete('/:id')\<close>\<close>

definition delete_task ::
  "(string \<Rightarrow> oid option) \<Rightarrow> string \<Rightarrow> task list \<Rightarrow> response \<times> task list" where
  "delete_task castId rid coll =
     (case Task_findByIdAndDelete castId rid coll of
        (Inr None, coll') \<Rightarrow> (\<lparr>status = 404, json = fail_body ''Task not found'' None\<rparr>, coll')
      | (Inr (Some t), coll') \<Rightarrow>
          (\<lparr>status = 200, json = ok_body (Some ''Task deleted successfully'') None (One t)\<rparr>, coll')
      | (Inl e, coll') \<Rightarrow>
          (\<lparr>status = 400, json = fail_body ''Error deleting task'' (Some e)\<rparr>, coll'))"

text \<open>
  A key format for concrete requests: 24 hexadecimal digits, read without regard to case.
\<close>

definition isHexDigit :: "char \<Rightarrow> bool" where
  "isHexDigit c \<longleftrightarrow> c \<in> set ''0123456789abcdefABCDEF''"

definition lowerHex :: "char \<Rightarrow> char" where
  "lowerHex c =
     (if c = CHR ''A'' then CHR ''a'' else if c = CHR ''B'' then CHR ''b''
      else if c = CHR ''C'' then CHR ''c'' else if c = CHR ''D'' then CHR ''d''
      else if c = CHR ''E'' then CHR ''e'' else if c = CHR ''F'' then CHR ''f'' else c)"

definition hex24 :: "string \<Rightarrow> oid option" where
  "hex24 s = (if length s = 24 \<and> list_all isHexDigit s then Some (map lowerHex s) else None)"

definition title_missing :: "ustring option \<Rightarrow> bool" where
  "title_missing v = (case v of None \<Rightarrow> True | Some s \<Rightarrow> blank s)"

text \<open>A request names a well-formed key that no stored task has.\<close>

definition no_match :: "(string \<Rightarrow> oid option) \<Rightarrow> string \<Rightarrow> task list \<Rightarrow> bool" where
  "no_match castId rid coll =
     (case castId rid of None \<Rightarrow> False | Some k \<Rightarrow> find (\<lambda>t. task_id t = k) coll = None)"

text \<open>A stored task for concrete requests.\<close>

definition milk :: task where
  "milk = \<lparr>task_id = ''0123456789abcdef01234567'', title = ascii ''Buy milk'',
            description = ascii ''default value'', completed = False, priority = Medium,
            createdAt = 1000, updatedAt = 1000\<rparr>"

section \<open>The API client: response interceptor\<close>

text \<open>
  A parsed response body is a JavaScript value. JSON carries no \<^verbatim>\<open>undefined\<close> and no
  NaN; \<open>JUndefined\<close> is what reading a missing property yields.
\<close>

datatype jsval =
    JUndefined
  | JNull
  | JBool bool
  | JNum rat
  | JStr ustring
  | JArr "jsval list"
  | JObj "(string \<times> jsval) list"

datatype js_error = TypeError

text \<open>ToBoolean.\<close>

fun truthy :: "jsval \<Rightarrow> bool" where
  "truthy JUndefined = False"
| "truthy JNull = False"
| "truthy (JBool b) = b"
| "truthy (JNum n) = (n \<noteq> 0)"
| "truthy (JStr s) = (s \<noteq> [])"
| "truthy (JArr xs) = True"
| "truthy (JObj kvs) = True"

text \<open>
  Reading the property \<^verbatim>\<open>data\<close>: a TypeError on \<^verbatim>\<open>null\<close> and \<^verbatim>\<open>undefined\<close>, the value
  of the key on an object, \<^verbatim>\<open>undefined\<close> where the key is missing and on every primitive
  and array.
\<close>

fun get_data :: "jsval \<Rightarrow> js_error + jsval" where
  "get_data JUndefined = Inl TypeError"
| "get_data JNull = Inl TypeError"
| "get_data (JObj kvs) = Inr (case map_of kvs ''data'' of None \<Rightarrow> JUndefined | Some v \<Rightarrow> v)"
| "get_data v = Inr JUndefined"

text \<open>
  The success handler of \<^verbatim>\<open>api.interceptors.response.use\<close>, applied to
  \<^verbatim>\<open>response.data\<close>: \<^verbatim>\<open>return response.data.data || response.data\<close>.
\<close>

definition responseInterceptor :: "jsval \<Rightarrow> js_error + jsval" where
  "responseInterceptor body =
     (case get_data body of
        Inl e \<Rightarrow> Inl e
      | Inr d \<Rightarrow> Inr (if truthy d then d else body))"

section \<open>The API client and the UI state container\<close>

text \<open>
  \<^verbatim>\<open>api.post\<close> and \<^verbatim>\<open>api.put\<close>, interceptors included, are the environment: each
  either resolves with a task or rejects with the message of the normalised error.
\<close>

definition createTask :: "(form_data \<Rightarrow> string + task) \<Rightarrow> form_data \<Rightarrow> string + task" where
  "createTask api_post taskData =
     (if fd_title taskData = [] \<or> trim (fd_title taskData) = []
      then Inl ''Task title is required''
      else api_post taskData)"

definition updateTask :: "(oid \<Rightarrow> 'd \<Rightarrow> string + task) \<Rightarrow> oid \<Rightarrow> 'd \<Rightarrow> string + task" where
  "updateTask api_put taskId taskData =
     (if taskId = [] then Inl ''Task ID is required for update'' else api_put taskId taskData)"

text \<open>The state of \<^verbatim>\<open>App\<close>; its \<^verbatim>\<open>error\<close> is written \<open>errorMsg\<close>.\<close>

record app_state =
  tasks :: "task list"
  loading :: bool
  errorMsg :: string
  editingTask :: "task option"

text \<open>
  \<^verbatim>\<open>handleCreateTask\<close> and \<^verbatim>\<open>handleUpdateTask\<close> catch every error of the service call,
  so as promises they always resolve.
\<close>

definition handleCreateTask ::
  "(form_data \<Rightarrow> string + task) \<Rightarrow> form_data \<Rightarrow> app_state \<Rightarrow> (string + unit) \<times> app_state" where
  "handleCreateTask api_post taskData app =
     (case createTask api_post taskData of
        Inr newTask \<Rightarrow> (Inr (), app\<lparr>errorMsg := [], tasks := newTask # tasks app\<rparr>)
      | Inl err \<Rightarrow> (Inr (), app\<lparr>errorMsg := ''Failed to create task. Please try again.''\<rparr>))"

definition handleUpdateTask ::
  "(oid \<Rightarrow> 'd \<Rightarrow> string + task) \<Rightarrow> oid \<Rightarrow> 'd \<Rightarrow> app_state \<Rightarrow> (string + unit) \<times> app_state" where
  "handleUpdateTask api_put taskId taskData app =
     (case updateTask api_put taskId taskData of
        Inr updatedTask \<Rightarrow>
          (Inr (), app\<lparr>errorMsg := [],
                      tasks := map (\<lambda>t. if task_id t = taskId then updatedTask else t) (tasks app),
                      editingTask := None\<rparr>)
      | Inl err \<Rightarrow> (Inr (), app\<lparr>errorMsg := ''Failed to update task. Please try again.''\<rparr>))"

text \<open>
  The props \<^verbatim>\<open>App\<close> hands to \<^verbatim>\<open>TaskForm\<close>: \<^verbatim>\<open>onSubmit\<close> is the update of the task
  being edited, or the creation when none is; \<^verbatim>\<open>isEditing\<close> is \<^verbatim>\<open>!!editingTask\<close>.
\<close>

definition App_onSubmit ::
  "(form_data \<Rightarrow> string + task) \<Rightarrow> (oid \<Rightarrow> form_data \<Rightarrow> string + task) \<Rightarrow> task option \<Rightarrow>
     form_data \<Rightarrow> app_state \<Rightarrow> (string + unit) \<times> app_state" where
  "App_onSubmit api_post api_put editing =
     (case editing of
        Some t \<Rightarrow> handleUpdateTask api_put (task_id t)
      | None \<Rightarrow> handleCreateTask api_post)"

definition submitTaskForm ::
  "(form_data \<Rightarrow> string + task) \<Rightarrow> (oid \<Rightarrow> form_data \<Rightarrow> string + task) \<Rightarrow>
     form_state \<Rightarrow> app_state \<Rightarrow> form_state \<times> app_state" where
  "submitTaskForm api_post api_put fs app =
     handleSubmit (App_onSubmit api_post api_put (editingTask app)) (editingTask app \<noteq> None) fs app"

section \<open>The task list: filter and sort\<close>

text \<open>The predicate of \<^verbatim>\<open>tasks.filter\<close>, a switch on the filter state.\<close>

definition keep :: "string \<Rightarrow> task \<Rightarrow> bool" where
  "keep flt t =
     (if flt = ''active'' then \<not> completed t
      else if flt = ''completed'' then completed t
      else True)"

definition priorityOrder :: "priority \<Rightarrow> int" where
  "priorityOrder p = (case p of High \<Rightarrow> 3 | Medium \<Rightarrow> 2 | Low \<Rightarrow> 1)"

text \<open>
  The comparator, a switch on the sort state. \<open>titleOrder x y\<close> stands for
  \<^verbatim>\<open>x.toLowerCase().localeCompare(y.toLowerCase())\<close>, which depends on the locale of the
  browser.
\<close>

definition compareTasks ::
  "(ustring \<Rightarrow> ustring \<Rightarrow> int) \<Rightarrow> string \<Rightarrow> task \<Rightarrow> task \<Rightarrow> int" where
  "compareTasks titleOrder sortBy a b =
     (if sortBy = ''oldest'' then createdAt a - createdAt b
      else if sortBy = ''priority'' then priorityOrder (priority b) - priorityOrder (priority a)
      else if sortBy = ''alphabetical'' then titleOrder (title a) (title b)
      else createdAt b - createdAt a)"

text \<open>
  \<^verbatim>\<open>Array.prototype.sort\<close> with a comparator is a stable sort (ECMAScript 2019): an
  element moves behind exactly the elements the comparator puts strictly before it. Here it
  is insertion from the right end of the array.
\<close>

fun insert_sorted :: "('a \<Rightarrow> 'a \<Rightarrow> int) \<Rightarrow> 'a \<Rightarrow> 'a list \<Rightarrow> 'a list" where
  "insert_sorted cmp x [] = [x]"
| "insert_sorted cmp x (y # ys) =
     (if cmp x y \<le> 0 then x # y # ys else y # insert_sorted cmp x ys)"

definition array_sort :: "('a \<Rightarrow> 'a \<Rightarrow> int) \<Rightarrow> 'a list \<Rightarrow> 'a list" where
  "array_sort cmp xs = foldr (insert_sorted cmp) xs []"

definition filteredAndSortedTasks ::
  "(ustring \<Rightarrow> ustring \<Rightarrow> int) \<Rightarrow> string \<Rightarrow> string \<Rightarrow> task list \<Rightarrow> task list" where
  "filteredAndSortedTasks titleOrder flt sortBy ts =
     (let filtered = filter (keep flt) ts
      in array_sort (compareTasks titleOrder sortBy) filtered)"

section \<open>The statistics: completion percentage\<close>

text \<open>
  JavaScript numbers are IEEE-754 doubles. A double is a rational; \<open>binary64 x\<close> is the
  double nearest to the rational \<open>x\<close>, ties to the even significand, for magnitudes in the
  normal range (the ones that occur here lie between \<open>1 / 2 ^ 32\<close> and 200). \<open>bitlen n\<close> is
  the number of binary digits of \<open>n\<close>, and \<open>exponent53 x\<close> is the \<open>k\<close> with
  \<open>2 ^ 52 \<le> x * 2 powi k\<close> and \<open>x * 2 powi k < 2 ^ 53\<close>, so that the significand of \<open>x\<close> is
  \<open>x * 2 powi k\<close> rounded to an integer.
\<close>

function bitlen :: "int \<Rightarrow> int" where
  "bitlen n = (if n \<le> 0 then 0 else 1 + bitlen (n div 2))"
  by pat_completeness auto
termination
  by (relation "measure nat") auto

declare bitlen.simps [simp del]

definition round_half_even :: "rat \<Rightarrow> int" where
  "round_half_even x =
     (let n = \<lfloor>x\<rfloor>; r = x - of_int n
      in if r < 1 / 2 then n else if 1 / 2 < r then n + 1 else if even n then n else n + 1)"

definition exponent53 :: "rat \<Rightarrow> int" where
  "exponent53 x =
     (case quotient_of x of
        (a, b) \<Rightarrow>
          let k = 53 + bitlen b - bitlen a
          in if 2 ^ 53 \<le> x * power_int 2 k then k - 1 else k)"

definition binary64 :: "rat \<Rightarrow> rat" where
  "binary64 x =
     (if x = 0 then 0
      else sgn x * of_int (round_half_even (\<bar>x\<bar> * power_int 2 (exponent53 \<bar>x\<bar>))) *
           power_int 2 (- exponent53 \<bar>x\<bar>))"

text \<open>
  \<^verbatim>\<open>Math.round\<close>: the integer nearest to the double, a tie going up.
\<close>

definition Math_round :: "rat \<Rightarrow> int" where
  "Math_round x = \<lfloor>x + 1 / 2\<rfloor>"

text \<open>
  \<^verbatim>\<open>completionPercentage\<close> of \<^verbatim>\<open>TaskStats\<close>: the quotient and the product are each
  rounded to a double before \<^verbatim>\<open>Math.round\<close> is applied.
\<close>

definition completionPercentage :: "task list \<Rightarrow> int" where
  "completionPercentage ts =
     (let totalTasks = length ts;
          completedTasks = length (filter completed ts)
      in if totalTasks = 0 then 0
         else Math_round (binary64 (binary64 (of_nat completedTasks / of_nat totalTasks) * 100)))"

text \<open>
  The percentage as the specification words it, \<open>completed/total \<times> 100\<close> over the
  rationals; \<open>round\<close> of it is the exactly rounded percentage.
\<close>

definition exact_percentage :: "task list \<Rightarrow> rat" where
  "exact_percentage ts = of_nat (length (filter completed ts)) / of_nat (length ts) * 100"

section \<open>Properties of trimming\<close>

lemma trim_empty_iff: "trim s = [] \<longleftrightarrow> blank s"
proof
  assume "trim s = []"
  then have a: "\<forall>x\<in>set (dropWhile isWhiteSpace s). isWhiteSpace x"
    by (simp add: trim_def)
  have "dropWhile isWhiteSpace s = []"
  proof (rule ccontr)
    assume n: "dropWhile isWhiteSpace s \<noteq> []"
    then have "\<not> isWhiteSpace (hd (dropWhile isWhiteSpace s))" by (rule hd_dropWhile)
    with a n show False by (meson list.set_sel(1))
  qed
  then show "blank s" by (simp add: blank_def list_all_iff)
next
  assume "blank s"
  then have d: "dropWhile isWhiteSpace s = []" by (simp add: blank_def list_all_iff)
  show "trim s = []" unfolding trim_def d by simp
qed

lemma validateForm_blank:
  "blank (fd_title fd) \<Longrightarrow> \<not> snd (validateForm fd) \<and>
     e_title (fst (validateForm fd)) = Some ''Task title is required''"
  by (simp add: validateForm_def Let_def trim_empty_iff)

lemma handleSubmit_blank:
  "blank (fd_title (formData fs)) \<Longrightarrow>
     handleSubmit onSubmit isEditing fs app = (fs\<lparr>errors := fst (validateForm (formData fs))\<rparr>, app)"
  using validateForm_blank [of "formData fs"]
  by (auto simp add: handleSubmit_def split: prod.splits)

section \<open>Creating a task\<close>

lemma schema_title_missing: "title_missing v \<Longrightarrow> schema_title v = None"
  by (cases v) (simp_all add: title_missing_def schema_title_def trim_empty_iff)

lemma post_task_missing:
  "title_missing (b_title b) \<Longrightarrow>
     post_task new_id now b coll =
       (\<lparr>status = 400,
         json = fail_body ''Error creating task''
           (Some (ValidationError (''title'' #
              (if schema_priority (b_priority b) = None then [''priority''] else []))))\<rparr>, coll)"
  by (simp add: post_task_def Task_create_def schema_title_missing)

text \<open>
  C1. A create request whose title is absent, empty or only whitespace is answered 400 with
  \<open>success\<close> false and a validation error, and the collection is what it was. On the
  client, a form whose title is empty or only whitespace fails \<^verbatim>\<open>validateForm\<close>, and
  \<^verbatim>\<open>handleSubmit\<close> returns with the parent state untouched whatever \<^verbatim>\<open>onSubmit\<close> is:
  the create call is not issued.
\<close>

theorem blank_title_rejected:
  "(title_missing (b_title b) \<longrightarrow>
      status (fst (post_task new_id now b coll)) = 400 \<and>
      \<not> success (json (fst (post_task new_id now b coll))) \<and>
      (\<exists>ps. error (json (fst (post_task new_id now b coll))) = Some (ValidationError ps)) \<and>
      snd (post_task new_id now b coll) = coll) \<and>
   (blank (fd_title (formData fs)) \<longrightarrow>
      \<not> snd (validateForm (formData fs)) \<and>
      handleSubmit onSubmit isEditing fs app =
        (fs\<lparr>errors := fst (validateForm (formData fs))\<rparr>, app))"
  by (simp add: post_task_missing fail_body_def validateForm_blank handleSubmit_blank)

text \<open>
  At a title of three spaces the request is refused and the empty collection stays empty;
  at a form title of an ideographic space and a space, a parent that logs every submission
  has logged none.
\<close>

theorem blank_title_rejected_witness:
  "title_missing (Some (ascii ''   '')) \<and>
   status (fst (post_task ''0123456789abcdef01234567'' 5
     \<lparr>b_title = Some (ascii ''   ''), b_description = None, b_completed = None,
      b_priority = None\<rparr> [])) = 400 \<and>
   snd (post_task ''0123456789abcdef01234567'' 5
     \<lparr>b_title = Some (ascii ''   ''), b_description = None, b_completed = None,
      b_priority = None\<rparr> []) = [] \<and>
   blank [0x3000, 0x20] \<and>
   snd (handleSubmit (\<lambda>d log. (Inr (), d # log)) False
     \<lparr>formData = \<lparr>fd_title = [0x3000, 0x20], fd_description = [], fd_priority = ascii ''high''\<rparr>,
      isSubmitting = False, errors = noErrors\<rparr> []) = []"
  using blank_title_rejected [of
     "\<lparr>b_title = Some (ascii ''   ''), b_description = None, b_completed = None,
      b_priority = None\<rparr>" "''0123456789abcdef01234567''" 5 "[]"
     "\<lparr>formData = \<lparr>fd_title = [0x3000, 0x20], fd_description = [], fd_priority = ascii ''high''\<rparr>,
      isSubmitting = False, errors = noErrors\<rparr>" "\<lambda>d log. (Inr (), d # log)" False "[]"]
  by (simp add: title_missing_def blank_def ascii_def isWhiteSpace_def)

text \<open>
  C5. A create request with a title that is not blank and with no description, no completed
  flag and no priority is answered 201, and the task appended to the collection has
  \<open>completed\<close> false, priority medium and the description \<^verbatim>\<open>'default value'\<close>, the
  placeholder the schema declares.
\<close>

theorem create_defaults:
  "b_title b = Some s \<and> \<not> blank s \<and>
   b_description b = None \<and> b_completed b = None \<and> b_priority b = None \<Longrightarrow>
     post_task new_id now b coll =
       (\<lparr>status = 201,
         json = ok_body (Some ''Task created successfully'') None
           (One \<lparr>task_id = new_id, title = trim s, description = ascii ''default value'',
                 completed = False, priority = Medium, createdAt = now, updatedAt = now\<rparr>)\<rparr>,
        coll @ [\<lparr>task_id = new_id, title = trim s, description = ascii ''default value'',
                 completed = False, priority = Medium, createdAt = now, updatedAt = now\<rparr>])"
  by (simp add: post_task_def Task_create_def schema_title_def schema_priority_def
      schema_description_def schema_completed_def trim_empty_iff Let_def)

theorem create_defaults_witness:
  "\<not> blank (ascii ''Buy milk'') \<and>
   snd (post_task ''0123456789abcdef01234567'' 1000
     \<lparr>b_title = Some (ascii ''Buy milk''), b_description = None, b_completed = None,
      b_priority = None\<rparr> []) =
   [\<lparr>task_id = ''0123456789abcdef01234567'', title = ascii ''Buy milk'',
     description = ascii ''default value'', completed = False, priority = Medium,
     createdAt = 1000, updatedAt = 1000\<rparr>]"
  using create_defaults [of
     "\<lparr>b_title = Some (ascii ''Buy milk''), b_description = None, b_completed = None,
      b_priority = None\<rparr>" "ascii ''Buy milk''" "''0123456789abcdef01234567''" 1000 "[]"]
  by (simp add: blank_def ascii_def isWhiteSpace_def trim_def)

section \<open>Reading tasks\<close>

text \<open>
  C2. Whatever the collection and its storage order, the list request is answered 200 with
  \<open>success\<close> true; \<open>data\<close> holds exactly the stored tasks (as a multiset: none dropped,
  none added), each \<open>createdAt\<close> at least that of every later one, and \<open>count\<close> is the
  length of \<open>data\<close>.
\<close>

theorem get_tasks_sorted:
  "status (get_tasks coll) = 200 \<and> success (json (get_tasks coll)) \<and>
   (\<exists>ts. data (json (get_tasks coll)) = Some (Many ts) \<and>
         count (json (get_tasks coll)) = Some (length ts) \<and>
         mset ts = mset coll \<and>
         sorted_wrt (\<lambda>a b. createdAt b \<le> createdAt a) ts)"
proof -
  let ?ts = "sort_key (\<lambda>t. - createdAt t) coll"
  have "sorted (map (\<lambda>t. - createdAt t) ?ts)" by (rule sorted_sort_key)
  then have "sorted_wrt (\<lambda>a b. createdAt b \<le> createdAt a) ?ts"
    by (simp add: sorted_map)
  then show ?thesis
    by (simp add: get_tasks_def Task_find_sorted_def ok_body_def)
qed

lemma find_SomeD: "find P xs = Some x \<Longrightarrow> x \<in> set xs \<and> P x"
  by (induction xs) (auto split: if_splits)

text \<open>
  C4. Reading one task: a well-formed key that a stored task has gives 200 with that task as
  \<open>data\<close>; a well-formed key that no task has gives 404 \<^verbatim>\<open>Task not found\<close>; a key that is
  not well-formed gives 400 \<^verbatim>\<open>Invalid task ID\<close>, which is not the 404 answer.
\<close>

theorem get_task_cases:
  "(castId rid = Some k \<and> find (\<lambda>t. task_id t = k) coll = Some t \<longrightarrow>
      get_task castId rid coll = \<lparr>status = 200, json = ok_body None None (One t)\<rparr> \<and>
      t \<in> set coll \<and> task_id t = k) \<and>
   (castId rid = Some k \<and> find (\<lambda>t. task_id t = k) coll = None \<longrightarrow>
      get_task castId rid coll = \<lparr>status = 404, json = fail_body ''Task not found'' None\<rparr>) \<and>
   (castId rid = None \<longrightarrow>
      get_task castId rid coll =
        \<lparr>status = 400, json = fail_body ''Invalid task ID'' (Some (CastError rid))\<rparr>)"
  by (auto simp: get_task_def Task_findById_def dest: find_SomeD)

theorem get_task_cases_witness:
  "hex24 ''0123456789ABCDEF01234567'' = Some ''0123456789abcdef01234567'' \<and>
   find (\<lambda>t. task_id t = ''0123456789abcdef01234567'') [milk] = Some milk \<and>
   get_task hex24 ''0123456789ABCDEF01234567'' [milk] =
     \<lparr>status = 200, json = ok_body None None (One milk)\<rparr> \<and>
   hex24 ''ffffffffffffffffffffffff'' = Some ''ffffffffffffffffffffffff'' \<and>
   find (\<lambda>t. task_id t = ''ffffffffffffffffffffffff'') [milk] = None \<and>
   get_task hex24 ''ffffffffffffffffffffffff'' [milk] =
     \<lparr>status = 404, json = fail_body ''Task not found'' None\<rparr> \<and>
   hex24 ''42'' = None \<and>
   get_task hex24 ''42'' [milk] =
     \<lparr>status = 400, json = fail_body ''Invalid task ID'' (Some (CastError ''42''))\<rparr>"
proof -
  have a: "hex24 ''0123456789ABCDEF01234567'' = Some ''0123456789abcdef01234567''"
    by (simp add: hex24_def isHexDigit_def lowerHex_def)
  have b: "find (\<lambda>t. task_id t = ''0123456789abcdef01234567'') [milk] = Some milk"
    by (simp add: milk_def)
  have c: "hex24 ''ffffffffffffffffffffffff'' = Some ''ffffffffffffffffffffffff''"
    by (simp add: hex24_def isHexDigit_def lowerHex_def)
  have d: "find (\<lambda>t. task_id t = ''ffffffffffffffffffffffff'') [milk] = None"
    by (simp add: milk_def)
  have e: "hex24 ''42'' = None"
    by (simp add: hex24_def)
  have 1: "get_task hex24 ''0123456789ABCDEF01234567'' [milk] =
     \<lparr>status = 200, json = ok_body None None (One milk)\<rparr>"
    using a b get_task_cases [of hex24 "''0123456789ABCDEF01234567''"
      "''0123456789abcdef01234567''" "[milk]" milk] by fast
  have 2: "get_task hex24 ''ffffffffffffffffffffffff'' [milk] =
     \<lparr>status = 404, json = fail_body ''Task not found'' None\<rparr>"
    using c d get_task_cases [of hex24 "''ffffffffffffffffffffffff''"
      "''ffffffffffffffffffffffff''" "[milk]" milk] by fast
  have 3: "get_task hex24 ''42'' [milk] =
     \<lparr>status = 400, json = fail_body ''Invalid task ID'' (Some (CastError ''42''))\<rparr>"
    using e get_task_cases [of hex24 "''42''" "[]" "[milk]" milk] by fast
  from a b c d e 1 2 3 show ?thesis by fast
qed

section \<open>Updating and deleting a task that is not there\<close>

text \<open>
  C3, as stated, fails: an update whose body breaks the schema is refused with 400 before
  the collection is consulted, also when the key matches no task. Here the key is well
  formed, the collection is empty and the priority is outside the enumeration.
\<close>

theorem put_missing_id_counterexample:
  "no_match hex24 ''ffffffffffffffffffffffff'' [] \<and>
   put_task hex24 7 ''ffffffffffffffffffffffff''
     \<lparr>b_title = None, b_description = None, b_completed = None,
      b_priority = Some (ascii ''urgent'')\<rparr> [] =
   (\<lparr>status = 400,
     json = fail_body ''Error updating task'' (Some (ValidationError [''priority'']))\<rparr>, [])"
  by (simp add: no_match_def hex24_def isHexDigit_def lowerHex_def put_task_def
      Task_findByIdAndUpdate_def update_errors_def enum_priority_def ascii_def)

text \<open>
  C3, amended. For a well-formed key that no stored task has: the delete request is answered
  404 \<^verbatim>\<open>Task not found\<close>; the update request is answered 404 \<^verbatim>\<open>Task not found\<close> when its
  body passes the update validators, and 400 \<^verbatim>\<open>Error updating task\<close> when it does not; in
  every one of these cases the collection is what it was.
\<close>

theorem missing_id_not_found:
  "no_match castId rid coll \<Longrightarrow>
     delete_task castId rid coll =
       (\<lparr>status = 404, json = fail_body ''Task not found'' None\<rparr>, coll) \<and>
     put_task castId now rid b coll =
       (if update_errors b = []
        then \<lparr>status = 404, json = fail_body ''Task not found'' None\<rparr>
        else \<lparr>status = 400,
              json = fail_body ''Error updating task'' (Some (ValidationError (update_errors b)))\<rparr>,
        coll)"
  by (auto simp: no_match_def delete_task_def Task_findByIdAndDelete_def put_task_def
      Task_findByIdAndUpdate_def split: option.splits)

theorem missing_id_not_found_witness:
  "no_match hex24 ''ffffffffffffffffffffffff'' [milk] \<and>
   delete_task hex24 ''ffffffffffffffffffffffff'' [milk] =
     (\<lparr>status = 404, json = fail_body ''Task not found'' None\<rparr>, [milk]) \<and>
   put_task hex24 9 ''ffffffffffffffffffffffff''
     \<lparr>b_title = None, b_description = None, b_completed = Some True, b_priority = None\<rparr> [milk] =
     (\<lparr>status = 404, json = fail_body ''Task not found'' None\<rparr>, [milk])"
proof -
  have a: "no_match hex24 ''ffffffffffffffffffffffff'' [milk]"
    by (simp add: no_match_def hex24_def isHexDigit_def lowerHex_def milk_def)
  have b: "update_errors
     \<lparr>b_title = None, b_description = None, b_completed = Some True, b_priority = None\<rparr> = []"
    by (simp add: update_errors_def)
  from missing_id_not_found [OF a, of 9
     "\<lparr>b_title = None, b_description = None, b_completed = Some True, b_priority = None\<rparr>"]
  show ?thesis by (simp add: a b)
qed

section \<open>The sorted view\<close>

lemma mset_insert_sorted: "mset (insert_sorted cmp x ys) = add_mset x (mset ys)"
  by (induction ys) simp_all

lemma mset_array_sort: "mset (array_sort cmp xs) = mset xs"
  by (induction xs) (simp_all add: array_sort_def mset_insert_sorted)

lemma set_array_sort: "set (array_sort cmp xs) = set xs"
  using mset_array_sort [of cmp xs] by (metis set_mset_mset)

lemma set_insert_sorted: "set (insert_sorted cmp x ys) = insert x (set ys)"
  using mset_insert_sorted [of cmp x ys] by (metis set_mset_mset set_mset_add_mset_insert)

lemma sorted_insert_sorted:
  "sorted_wrt (\<lambda>a b. f b \<le> f a) ys \<Longrightarrow>
     sorted_wrt (\<lambda>a b. f b \<le> f a) (insert_sorted (\<lambda>a b. f b - f a) x ys)"
  for f :: "'a \<Rightarrow> int"
  by (induction ys) (auto simp: set_insert_sorted)

lemma sorted_array_sort:
  "sorted_wrt (\<lambda>a b. f b \<le> f a) (array_sort (\<lambda>a b. f b - f a) xs)"
  for f :: "'a \<Rightarrow> int"
  by (induction xs) (simp_all add: array_sort_def sorted_insert_sorted)

lemma filter_insert_sorted:
  "filter (\<lambda>t. f t = v) (insert_sorted (\<lambda>a b. f b - f a) x ys) =
     (if f x = v then x # filter (\<lambda>t. f t = v) ys else filter (\<lambda>t. f t = v) ys)"
  for f :: "'a \<Rightarrow> int"
  by (induction ys) auto

lemma filter_array_sort:
  "filter (\<lambda>t. f t = v) (array_sort (\<lambda>a b. f b - f a) xs) = filter (\<lambda>t. f t = v) xs"
  for f :: "'a \<Rightarrow> int"
  by (induction xs) (simp_all add: array_sort_def filter_insert_sorted)

lemma priorityOrder_eq: "priorityOrder p = priorityOrder q \<longleftrightarrow> p = q"
  by (cases p; cases q) (simp_all add: priorityOrder_def)

lemma by_priority_split:
  "sorted_wrt (\<lambda>a b. priorityOrder (priority b) \<le> priorityOrder (priority a)) r \<Longrightarrow>
     r = filter (\<lambda>t. priority t = High) r @ filter (\<lambda>t. priority t = Medium) r @
         filter (\<lambda>t. priority t = Low) r"
proof (induction r)
  case Nil
  then show ?case by simp
next
  case (Cons x r)
  then have le: "\<forall>y\<in>set r. priorityOrder (priority y) \<le> priorityOrder (priority x)"
    and ih: "r = filter (\<lambda>t. priority t = High) r @ filter (\<lambda>t. priority t = Medium) r @
         filter (\<lambda>t. priority t = Low) r"
    by simp_all
  show ?case
  proof (cases "priority x")
    case High
    with ih show ?thesis by simp
  next
    case Medium
    with le have "\<forall>y\<in>set r. priority y \<noteq> High"
      by (auto simp: priorityOrder_def)
    then have "filter (\<lambda>t. priority t = High) r = []" by (simp add: filter_empty_conv)
    with ih Medium show ?thesis by simp
  next
    case Low
    with le have "\<forall>y\<in>set r. priority y \<noteq> High \<and> priority y \<noteq> Medium"
      by (auto simp: priorityOrder_def split: priority.splits)
    then have "filter (\<lambda>t. priority t = High) r = []" "filter (\<lambda>t. priority t = Medium) r = []"
      by (simp_all add: filter_empty_conv)
    with ih Low show ?thesis by simp
  qed
qed

lemma compareTasks_priority:
  "compareTasks titleOrder ''priority'' =
     (\<lambda>a b. priorityOrder (priority b) - priorityOrder (priority a))"
  by (simp add: compareTasks_def fun_eq_iff)

text \<open>
  C7. Under the sort option \<^verbatim>\<open>priority\<close> the displayed list is the high-priority tasks of
  the filtered list, then its medium-priority tasks, then its low-priority tasks, each group
  in the order it has in the input: every high task is before every medium one, every medium
  one before every low one, and tasks of equal priority keep their relative order.
\<close>

theorem sort_by_priority:
  "filteredAndSortedTasks titleOrder flt ''priority'' ts =
     filter (\<lambda>t. priority t = High) (filter (keep flt) ts) @
     filter (\<lambda>t. priority t = Medium) (filter (keep flt) ts) @
     filter (\<lambda>t. priority t = Low) (filter (keep flt) ts)"
proof -
  let ?f = "\<lambda>t. priorityOrder (priority t)"
  let ?xs = "filter (keep flt) ts"
  let ?r = "array_sort (\<lambda>a b. ?f b - ?f a) ?xs"
  have r: "filteredAndSortedTasks titleOrder flt ''priority'' ts = ?r"
    by (simp add: filteredAndSortedTasks_def compareTasks_priority)
  have eq: "filter (\<lambda>t. priority t = p) ?r = filter (\<lambda>t. priority t = p) ?xs" for p
    using filter_array_sort [of ?f "priorityOrder p" ?xs] by (simp add: priorityOrder_eq)
  have "?r = filter (\<lambda>t. priority t = High) ?r @ filter (\<lambda>t. priority t = Medium) ?r @
         filter (\<lambda>t. priority t = Low) ?r"
    by (rule by_priority_split) (rule sorted_array_sort)
  then show ?thesis unfolding r eq .
qed

section \<open>The filters\<close>

lemma in_shuffles_filter:
  "xs \<in> shuffles (filter P xs) (filter (\<lambda>x. \<not> P x) xs)"
  by (induction xs) (simp_all add: Cons_in_shuffles_leftI Cons_in_shuffles_rightI)

text \<open>
  C9. The tasks kept by the filter \<^verbatim>\<open>active\<close> and those kept by \<^verbatim>\<open>completed\<close> have no
  task in common; the unfiltered list is an interleaving of the two results that keeps the
  order of each (and \<^verbatim>\<open>all\<close> keeps the list as it is); the same holds for the displayed
  lists after sorting, as multisets.
\<close>

theorem filters_partition:
  "set (filter (keep ''active'') ts) \<inter> set (filter (keep ''completed'') ts) = {} \<and>
   ts \<in> shuffles (filter (keep ''completed'') ts) (filter (keep ''active'') ts) \<and>
   filter (keep ''all'') ts = ts \<and>
   set (filteredAndSortedTasks titleOrder ''active'' sortBy ts) \<inter>
     set (filteredAndSortedTasks titleOrder ''completed'' sortBy ts) = {} \<and>
   mset (filteredAndSortedTasks titleOrder ''active'' sortBy ts) +
     mset (filteredAndSortedTasks titleOrder ''completed'' sortBy ts) =
     mset (filteredAndSortedTasks titleOrder ''all'' sortBy ts)"
proof -
  have a: "keep ''active'' = (\<lambda>t. \<not> completed t)" by (simp add: keep_def fun_eq_iff)
  have c: "keep ''completed'' = completed" by (simp add: keep_def fun_eq_iff)
  have l: "keep ''all'' = (\<lambda>t. True)" by (simp add: keep_def fun_eq_iff)
  have 1: "set (filter (keep ''active'') ts) \<inter> set (filter (keep ''completed'') ts) = {}"
    unfolding a c by auto
  have 2: "ts \<in> shuffles (filter (keep ''completed'') ts) (filter (keep ''active'') ts)"
    unfolding a c by (rule in_shuffles_filter)
  have 3: "filter (keep ''all'') ts = ts" unfolding l by simp
  have 4: "mset (filter (keep ''active'') ts) + mset (filter (keep ''completed'') ts) = mset ts"
    unfolding a c by (induction ts) simp_all
  show ?thesis
    using 1 2 3 4 by (simp add: filteredAndSortedTasks_def set_array_sort mset_array_sort)
qed

section \<open>The response interceptor\<close>

text \<open>
  C10. On a response whose body is an object, the interceptor returns the value of the key
  \<^verbatim>\<open>data\<close> when that value is truthy, and the whole body when the key is missing or its
  value is falsy; on no body does it return \<^verbatim>\<open>undefined\<close>.
\<close>

theorem interceptor_unwraps:
  "responseInterceptor (JObj kvs) =
     Inr (case map_of kvs ''data'' of
            None \<Rightarrow> JObj kvs
          | Some d \<Rightarrow> if truthy d then d else JObj kvs) \<and>
   responseInterceptor body \<noteq> Inr JUndefined"
proof -
  have "responseInterceptor body \<noteq> Inr JUndefined"
    by (cases body) (auto simp: responseInterceptor_def split: option.splits)
  then show ?thesis
    by (simp add: responseInterceptor_def split: option.splits)
qed

section \<open>Submitting the form\<close>

text \<open>
  A validated submission hands the trimmed fields to the parent's \<^verbatim>\<open>onSubmit\<close>, and in
  edit mode \<^verbatim>\<open>handleSubmit\<close> leaves the fields as they are. In create mode the parent's
  handler resolves whether or not the service call succeeds, so a validated submission always
  ends with the empty form.
\<close>

lemma valid_submit_invokes:
  "snd (validateForm (formData fs)) \<Longrightarrow>
     snd (handleSubmit onSubmit isEditing fs app) =
       snd (onSubmit \<lparr>fd_title = trim (fd_title (formData fs)),
                      fd_description = trim (fd_description (formData fs)),
                      fd_priority = fd_priority (formData fs)\<rparr> app)"
  by (cases "validateForm (formData fs)")
     (auto simp: handleSubmit_def Let_def split: prod.splits sum.splits)

lemma edit_submit_keeps_fields:
  "formData (fst (handleSubmit onSubmit True fs app)) = formData fs"
  by (cases "validateForm (formData fs)")
     (auto simp: handleSubmit_def Let_def split: prod.splits sum.splits)

lemma create_submit_resets:
  "snd (validateForm (formData fs)) \<Longrightarrow> editingTask app = None \<Longrightarrow>
     formData (fst (submitTaskForm api_post api_put fs app)) = emptyForm"
  by (cases "validateForm (formData fs)")
     (auto simp: submitTaskForm_def App_onSubmit_def handleSubmit_def handleCreateTask_def
        Let_def split: sum.splits)

text \<open>
  C6, evaluated where it fails: the form holds a valid new task, no task is being edited and
  the create call is rejected (a network error). The task list is unchanged and the banner
  reports the failure, yet the form is back to its empty initial state.
\<close>

theorem failed_create_resets_form:
  "submitTaskForm (\<lambda>d. Inl ''Network error. Please check your internet connection.'')
     (\<lambda>k d. Inl ''Request failed. Please try again.'')
     \<lparr>formData = \<lparr>fd_title = ascii ''Buy milk'', fd_description = ascii ''2 litres'',
                   fd_priority = ascii ''high''\<rparr>,
      isSubmitting = False, errors = noErrors\<rparr>
     \<lparr>tasks = [], loading = False, errorMsg = [], editingTask = None\<rparr> =
   (\<lparr>formData = emptyForm, isSubmitting = False, errors = noErrors\<rparr>,
    \<lparr>tasks = [], loading = False,
     errorMsg = ''Failed to create task. Please try again.'', editingTask = None\<rparr>)"
  by (simp add: submitTaskForm_def App_onSubmit_def handleSubmit_def validateForm_def
      handleCreateTask_def createTask_def trim_def ascii_def isWhiteSpace_def Let_def)

section \<open>Double arithmetic\<close>

lemma bitlen_pos: "0 < n \<Longrightarrow> 1 \<le> bitlen n"
  by (induction n rule: bitlen.induct) (simp add: bitlen.simps)

lemma bitlen_nonneg: "0 \<le> bitlen n"
  by (induction n rule: bitlen.induct) (simp add: bitlen.simps)

lemma bitlen_bounds:
  "0 < n \<Longrightarrow> 2 ^ nat (bitlen n - 1) \<le> n \<and> n < 2 ^ nat (bitlen n)"
proof (induction n rule: bitlen.induct)
  case (1 n)
  show ?case
  proof (cases "n div 2 = 0")
    case True
    with "1.prems" have "n = 1" by presburger
    then show ?thesis by (simp add: bitlen.simps)
  next
    case False
    with "1.prems" have p: "0 < n div 2" by presburger
    with "1.IH" "1.prems" have ih: "2 ^ nat (bitlen (n div 2) - 1) \<le> n div 2"
      "n div 2 < 2 ^ nat (bitlen (n div 2))" by simp_all
    let ?L = "bitlen (n div 2)"
    have L: "1 \<le> ?L" using p by (rule bitlen_pos)
    have b: "bitlen n = 1 + ?L" using "1.prems" by (subst bitlen.simps) simp
    have e1: "nat (bitlen n - 1) = Suc (nat (?L - 1))" using b L by simp
    have e2: "nat (bitlen n) = Suc (nat ?L)" using b L by simp
    have "2 * 2 ^ nat (?L - 1) \<le> 2 * (n div 2)" using ih(1) by simp
    also have "\<dots> \<le> n" by presburger
    finally have lo: "2 ^ nat (bitlen n - 1) \<le> n" unfolding e1 by simp
    have "n div 2 + 1 \<le> 2 ^ nat ?L" using ih(2) by simp
    then have "2 * (n div 2) + 2 \<le> 2 * 2 ^ nat ?L" by simp
    moreover have "n < 2 * (n div 2) + 2" by presburger
    ultimately have hi: "n < 2 ^ nat (bitlen n)" unfolding e2 by simp
    from lo hi show ?thesis by simp
  qed
qed

lemma round_half_even_near: "\<bar>of_int (round_half_even y) - y\<bar> \<le> 1 / 2"
proof -
  have "of_int \<lfloor>y\<rfloor> \<le> y" "y < of_int \<lfloor>y\<rfloor> + 1" by linarith+
  then show ?thesis
    by (auto simp: round_half_even_def Let_def abs_le_iff)
qed

lemma scaled_lower:
  assumes "0 < x"
  shows "2 ^ 52 \<le> x * power_int 2 (exponent53 x)"
proof -
  obtain a b where q: "quotient_of x = (a, b)" by (cases "quotient_of x")
  then have b: "0 < b" and x: "x = of_int a / of_int b"
    by (simp_all add: quotient_of_denom_pos quotient_of_div)
  from assms x b have a: "0 < a" by (simp add: zero_less_divide_iff)
  let ?la = "bitlen a" and ?lb = "bitlen b"
  let ?k = "53 + ?lb - ?la"
  have la: "1 \<le> ?la" and lb: "1 \<le> ?lb" using a b by (simp_all add: bitlen_pos)
  from bitlen_bounds [OF a] have "(2::int) ^ nat (?la - 1) \<le> a" by simp
  then have "(of_int ((2::int) ^ nat (?la - 1)) :: rat) \<le> of_int a" by (simp only: of_int_le_iff)
  then have alo: "power_int (2::rat) (?la - 1) \<le> of_int a" using la by (simp add: power_int_def)
  from bitlen_bounds [OF b] have "b < (2::int) ^ nat ?lb" by simp
  then have "(of_int b :: rat) < of_int ((2::int) ^ nat ?lb)" by (simp only: of_int_less_iff)
  then have bhi: "of_int b < power_int (2::rat) ?lb" using lb by (simp add: power_int_def)
  have "2 ^ 52 * (of_int b :: rat) < 2 ^ 52 * power_int 2 ?lb" using bhi by simp
  also have "\<dots> = power_int (2::rat) (?la - 1) * power_int 2 ?k"
  proof -
    have s: "(?la - 1) + ?k = 52 + ?lb" by simp
    have "power_int (2::rat) (?la - 1) * power_int 2 ?k = power_int 2 ((?la - 1) + ?k)"
      by (rule power_int_add [symmetric]) simp
    also have "\<dots> = power_int 2 (52 + ?lb)" by (simp only: s)
    also have "\<dots> = power_int (2::rat) 52 * power_int 2 ?lb"
      by (rule power_int_add) simp
    finally show ?thesis by simp
  qed
  also have "\<dots> \<le> of_int a * power_int 2 ?k"
    using alo by (simp add: mult_right_mono)
  finally have "2 ^ 52 * (of_int b :: rat) < of_int a * power_int 2 ?k" .
  then have k0: "2 ^ 52 < x * power_int 2 ?k"
    using b by (simp add: x field_simps)
  show ?thesis
  proof (cases "2 ^ 53 \<le> x * power_int 2 ?k")
    case True
    then have e: "exponent53 x = ?k - 1" by (simp add: exponent53_def q Let_def)
    have "power_int (2::rat) (?k - 1) = power_int 2 ?k / power_int 2 1"
      by (rule power_int_diff) simp
    then have h: "power_int (2::rat) (exponent53 x) = power_int 2 ?k / 2"
      by (simp only: e power_int_1_right)
    define P where "P = x * power_int 2 ?k"
    from True have "2 ^ 53 \<le> P" by (simp only: P_def)
    then have "2 ^ 52 \<le> P / 2" by simp
    also have "P / 2 = x * (power_int 2 ?k / 2)" by (simp only: P_def times_divide_eq_right)
    finally show ?thesis by (simp only: h)
  next
    case False
    then have e: "exponent53 x = ?k" by (simp add: exponent53_def q Let_def)
    from k0 show ?thesis unfolding e by simp
  qed
qed

lemma binary64_error:
  assumes "0 < x"
  shows "\<bar>binary64 x - x\<bar> \<le> x / 2 ^ 53"
proof -
  let ?k = "exponent53 x"
  let ?p = "power_int (2::rat) ?k"
  let ?m = "of_int (round_half_even (x * ?p)) :: rat"
  have p: "0 < ?p" by (simp add: zero_less_power_int)
  have ip: "power_int (2::rat) (- ?k) = 1 / ?p" by (simp add: power_int_minus_divide)
  have b: "binary64 x = ?m / ?p" using assms by (simp add: binary64_def ip)
  have "binary64 x - x = (?m - x * ?p) / ?p" using p by (simp add: b field_simps)
  then have "\<bar>binary64 x - x\<bar> = \<bar>?m - x * ?p\<bar> / ?p" using p by (simp add: abs_divide)
  also have "\<dots> \<le> (1 / 2) / ?p"
    using round_half_even_near [of "x * ?p"] p by (intro divide_right_mono) simp_all
  also have "\<dots> \<le> x / 2 ^ 53"
  proof -
    from scaled_lower [OF assms] have "2 ^ 52 \<le> x * ?p" .
    then have "1 / ?p \<le> x / 2 ^ 52" using p by (simp add: field_simps)
    then show ?thesis by simp
  qed
  finally show ?thesis .
qed

lemma binary64_zero: "binary64 0 = 0"
  by (simp add: binary64_def)

lemma product_error:
  fixes q :: rat
  assumes "0 \<le> q" "q \<le> 1"
  shows "\<bar>binary64 (binary64 q * 100) - q * 100\<bar> \<le> 300 / 2 ^ 53"
proof (cases "q = 0")
  case True
  then show ?thesis by (simp add: binary64_zero)
next
  case False
  with assms have q: "0 < q" by simp
  define e :: rat where "e = 1 / 2 ^ 53"
  have e: "0 < e" "e < 1" by (simp_all add: e_def)
  have err: "\<bar>binary64 x - x\<bar> \<le> x * e" if "0 < x" for x
    using binary64_error [OF that] by (simp add: e_def)
  define q1 where "q1 = binary64 q"
  define z where "z = q1 * 100"
  define y where "y = binary64 z"
  have e1: "\<bar>q1 - q\<bar> \<le> q * e" unfolding q1_def using q by (rule err)
  have qe: "q * e \<le> e" using assms e by (simp add: mult_left_le_one_le)
  have qe': "q * e < q" using q e by simp
  from e1 qe' have q1: "0 < q1" by linarith
  from e1 qe have d1: "\<bar>q1 - q\<bar> \<le> e" by linarith
  from d1 assms e have u1: "q1 \<le> 2" by linarith
  have zp: "0 < z" using q1 by (simp add: z_def)
  have zu: "z \<le> 200" using u1 by (simp add: z_def)
  have e2: "\<bar>y - z\<bar> \<le> z * e" unfolding y_def using zp by (rule err)
  have "z * e \<le> 200 * e" using zu e by (simp add: mult_right_mono)
  with e2 have d2: "\<bar>y - z\<bar> \<le> 200 * e" by linarith
  from d1 have d3: "\<bar>z - q * 100\<bar> \<le> 100 * e" unfolding z_def by linarith
  from d2 d3 have "\<bar>y - q * 100\<bar> \<le> 300 * e" by linarith
  then show ?thesis by (simp add: y_def z_def q1_def e_def)
qed

lemma int_gap: "of_int a < (of_int b :: rat) \<Longrightarrow> of_int a + 1 \<le> (of_int b :: rat)"
proof -
  assume "of_int a < (of_int b :: rat)"
  then have "a < b" by (simp only: of_int_less_iff)
  then have "a + 1 \<le> b" by simp
  then have "(of_int (a + 1) :: rat) \<le> of_int b" by (simp only: of_int_le_iff)
  then show ?thesis by simp
qed

lemma scaled_gap:
  fixes X N D :: rat
  assumes D: "0 < D" and "N * D + 1 \<le> X * D"
  shows "N + 1 / D \<le> X"
proof -
  have "(N + 1 / D) * D = N * D + 1" using D by (simp add: distrib_right)
  with assms(2) have "(N + 1 / D) * D \<le> X * D" by simp
  with D show ?thesis by (simp only: mult_le_cancel_right_pos)
qed

lemma Math_round_near:
  fixes c t :: nat and y :: rat
  assumes t: "0 < t" "t < 2 ^ 32"
    and y: "\<bar>y - of_nat c / of_nat t * 100\<bar> \<le> 300 / 2 ^ 53"
  shows "\<bar>of_int (Math_round y) - (of_nat c / of_nat t * 100 :: rat)\<bar> \<le> 1 / 2"
proof -
  define T :: rat where "T = of_nat t"
  define D :: rat where "D = 2 * T"
  define X :: rat where "X = of_nat c / of_nat t * 100"
  define n where "n = Math_round y"
  define N :: rat where "N = of_int n"
  have T: "0 < T" using t by (simp add: T_def)
  have D: "0 < D" using T by (simp add: D_def)
  have "T < of_nat (2 ^ 32)" unfolding T_def using t(2) by (simp only: of_nat_less_iff)
  then have "D < 2 ^ 33" by (simp add: D_def)
  then have "1 / 2 ^ 33 < 1 / D" using D by (simp add: frac_less2)
  moreover have "(300::rat) / 2 ^ 53 < 1 / 2 ^ 33" by simp
  ultimately have gap: "300 / 2 ^ 53 < 1 / D" by linarith
  have n1: "N \<le> y + 1 / 2" and n2: "y + 1 / 2 < N + 1"
    unfolding N_def n_def Math_round_def by linarith+
  have y': "\<bar>y - X\<bar> \<le> 300 / 2 ^ 53" using y by (simp only: X_def)
  have XD: "X * D = of_int (200 * int c)"
    using t by (simp add: X_def D_def T_def)
  have up_int: "(N + 1 / 2) * D = of_int ((2 * n + 1) * int t)"
    by (simp add: N_def D_def T_def distrib_right)
  have lo_int: "(N - 1 / 2) * D = of_int ((2 * n - 1) * int t)"
    by (simp add: N_def D_def T_def left_diff_distrib)
  have up: "X \<le> N + 1 / 2"
  proof (rule ccontr)
    assume "\<not> X \<le> N + 1 / 2"
    then have "N + 1 / 2 < X" by simp
    then have "(N + 1 / 2) * D < X * D"
      using D by (intro mult_strict_right_mono) simp_all
    then have "of_int ((2 * n + 1) * int t) < (of_int (200 * int c) :: rat)"
      by (simp only: XD up_int)
    then have "of_int ((2 * n + 1) * int t) + 1 \<le> (of_int (200 * int c) :: rat)"
      by (rule int_gap)
    then have "(N + 1 / 2) * D + 1 \<le> X * D"
      by (simp only: XD up_int)
    with D have "(N + 1 / 2) + 1 / D \<le> X" by (rule scaled_gap)
    with n2 gap y' show False by linarith
  qed
  have lo: "N - 1 / 2 \<le> X"
  proof (rule ccontr)
    assume "\<not> N - 1 / 2 \<le> X"
    then have "X < N - 1 / 2" by simp
    then have "X * D < (N - 1 / 2) * D"
      using D by (intro mult_strict_right_mono) simp_all
    then have "(of_int (200 * int c) :: rat) < of_int ((2 * n - 1) * int t)"
      by (simp only: XD lo_int)
    then have "of_int (200 * int c) + 1 \<le> (of_int ((2 * n - 1) * int t) :: rat)"
      by (rule int_gap)
    then have "X * D + 1 \<le> (N - 1 / 2) * D"
      by (simp only: XD lo_int)
    with D have "X + 1 / D \<le> N - 1 / 2" by (rule scaled_gap)
    with n1 gap y' show False by linarith
  qed
  from up lo have "\<bar>N - X\<bar> \<le> 1 / 2" by linarith
  then show ?thesis by (simp only: N_def n_def X_def)
qed

section \<open>The completion percentage\<close>

lemma completionPercentage_counts:
  "completionPercentage ts =
     (if ts = [] then 0
      else Math_round (binary64 (binary64
             (of_nat (length (filter completed ts)) / of_nat (length ts)) * 100)))"
  by (simp add: completionPercentage_def Let_def)

lemma one_of_three: "Math_round (binary64 (binary64 (1 / 3) * 100)) = 33"
  by code_simp

lemma twentythree_of_forty: "Math_round (binary64 (binary64 (23 / 40) * 100)) = 57"
  by code_simp

lemma one_of_eight: "Math_round (binary64 (binary64 (1 / 8) * 100)) = 13"
  by code_simp

text \<open>
  C8, as stated, fails: of 40 tasks with 23 completed the exact percentage is 57.5, which
  rounds to 58, but the double product \<^verbatim>\<open>(23/40)*100\<close> is 57.49999999999999 and the
  displayed percentage is 57.
\<close>

theorem completion_percentage_counterexample:
  "completionPercentage (replicate 23 (milk\<lparr>completed := True\<rparr>) @ replicate 17 milk) = 57 \<and>
   round (exact_percentage (replicate 23 (milk\<lparr>completed := True\<rparr>) @ replicate 17 milk)) = 58"
proof -
  let ?ts = "replicate 23 (milk\<lparr>completed := True\<rparr>) @ replicate 17 milk"
  have l: "length ?ts = 40" by simp
  have c: "length (filter completed ?ts) = 23" by (simp add: milk_def)
  have n: "?ts \<noteq> []" using l by auto
  have "completionPercentage ?ts = 57"
    unfolding completionPercentage_counts l c using n twentythree_of_forty by simp
  moreover have "round (exact_percentage ?ts) = 58"
    unfolding exact_percentage_def l c by (simp add: round_def)
  ultimately show ?thesis by simp
qed

text \<open>
  C8, amended. For a list of fewer than \<open>2 ^ 32\<close> tasks (the bound on the length of an
  array) the displayed percentage is 0 when the list is empty; otherwise it is an integer
  within one half of \<open>completed/total \<times> 100\<close>, and it is the exactly rounded percentage
  whenever \<open>completed/total \<times> 100\<close> is not halfway between two integers; for 3 tasks of
  which 1 is completed it is 33.
\<close>

theorem completion_percentage_nearest:
  "length ts < 2 ^ 32 \<Longrightarrow>
     (ts = [] \<longrightarrow> completionPercentage ts = 0) \<and>
     (ts \<noteq> [] \<longrightarrow>
        \<bar>of_int (completionPercentage ts) - exact_percentage ts\<bar> \<le> 1 / 2 \<and>
        (frac (exact_percentage ts) \<noteq> 1 / 2 \<longrightarrow>
           completionPercentage ts = round (exact_percentage ts))) \<and>
     (length ts = 3 \<and> length (filter completed ts) = 1 \<longrightarrow> completionPercentage ts = 33)"
proof -
  assume len: "length ts < 2 ^ 32"
  have empty: "ts = [] \<longrightarrow> completionPercentage ts = 0"
    by (simp add: completionPercentage_counts)
  have three: "length ts = 3 \<and> length (filter completed ts) = 1 \<longrightarrow> completionPercentage ts = 33"
  proof
    assume a: "length ts = 3 \<and> length (filter completed ts) = 1"
    then have "ts \<noteq> []" by auto
    with a show "completionPercentage ts = 33"
      using one_of_three by (simp add: completionPercentage_counts)
  qed
  have near: "\<bar>of_int (completionPercentage ts) - exact_percentage ts\<bar> \<le> 1 / 2 \<and>
        (frac (exact_percentage ts) \<noteq> 1 / 2 \<longrightarrow>
           completionPercentage ts = round (exact_percentage ts))" if ne: "ts \<noteq> []"
  proof -
    let ?c = "length (filter completed ts)" and ?t = "length ts"
    define q :: rat where "q = of_nat ?c / of_nat ?t"
    define n where "n = completionPercentage ts"
    define x where "x = exact_percentage ts"
    have t: "0 < ?t" using ne by simp
    have "?c \<le> ?t" by (rule length_filter_le)
    then have "(of_nat ?c :: rat) \<le> of_nat ?t" by (simp only: of_nat_le_iff)
    then have q1: "q \<le> 1" using t by (simp add: q_def)
    have q0: "0 \<le> q" by (simp add: q_def)
    have y: "\<bar>binary64 (binary64 q * 100) - of_nat ?c / of_nat ?t * 100\<bar> \<le> 300 / 2 ^ 53"
      using product_error [OF q0 q1] by (simp only: q_def)
    have nq: "n = Math_round (binary64 (binary64 q * 100))"
      using ne by (simp add: n_def completionPercentage_counts q_def)
    have nx: "\<bar>of_int n - x\<bar> \<le> 1 / 2"
      using Math_round_near [OF t len y] by (simp only: nq x_def exact_percentage_def q_def)
    have "n = round x" if f: "frac x \<noteq> 1 / 2"
    proof -
      have "x \<noteq> of_int n + 1 / 2"
      proof
        assume h: "x = of_int n + 1 / 2"
        have "\<lfloor>of_int n + 1 / 2 :: rat\<rfloor> = n" by (rule floor_unique) simp_all
        then have fl: "\<lfloor>x\<rfloor> = n" by (simp only: h)
        have "frac x = 1 / 2" unfolding frac_def fl by (simp add: h)
        with f show False by simp
      qed
      with nx have "of_int n \<le> x + 1 / 2" "x + 1 / 2 < of_int n + 1" by linarith+
      then have "\<lfloor>x + 1 / 2\<rfloor> = n" by (simp only: floor_unique)
      then show ?thesis by (simp add: round_def)
    qed
    with nx show ?thesis by (simp only: n_def x_def) simp
  qed
  from empty three near show ?thesis by blast
qed

theorem completion_percentage_nearest_witness:
  "length [milk\<lparr>completed := True\<rparr>, milk, milk] < 2 ^ 32 \<and>
   length (filter completed [milk\<lparr>completed := True\<rparr>, milk, milk]) = 1 \<and>
   frac (exact_percentage [milk\<lparr>completed := True\<rparr>, milk, milk]) \<noteq> 1 / 2 \<and>
   completionPercentage [milk\<lparr>completed := True\<rparr>, milk, milk] = 33 \<and>
   round (exact_percentage [milk\<lparr>completed := True\<rparr>, milk, milk]) = 33 \<and>
   completionPercentage [] = 0"
proof -
  let ?ts = "[milk\<lparr>completed := True\<rparr>, milk, milk]"
  have a: "length ?ts < 2 ^ 32" by simp
  have b: "length ?ts = 3 \<and> length (filter completed ?ts) = 1" by (simp add: milk_def)
  have x: "exact_percentage ?ts = 100 / 3" by (simp add: exact_percentage_def milk_def)
  have "\<lfloor>100 / 3 :: rat\<rfloor> = 33" by (rule floor_unique) simp_all
  then have c: "frac (exact_percentage ?ts) \<noteq> 1 / 2" by (simp add: x frac_def)
  have "\<lfloor>100 / 3 + 1 / 2 :: rat\<rfloor> = 33" by (rule floor_unique) simp_all
  then have d: "round (exact_percentage ?ts) = 33" by (simp only: x round_def)
  have e: "length ([] :: task list) < 2 ^ 32" by simp
  from completion_percentage_nearest [OF a] b have 1: "completionPercentage ?ts = 33" by blast
  from completion_percentage_nearest [OF e] have 2: "completionPercentage [] = 0" by blast
  from a b c d 1 2 show ?thesis by simp
qed

end
